theory Spec2Isabelle
  imports Complex_Main
begin

section \<open>ReplayTale: the orchestration core of src/index.ts\<close>

text \<open>
  The class \<open>ReplayTale\<close> of \<open>src/index.ts\<close> is embedded as a record of its fields and
  every method as a function from the old state to the new one.

  \<^item> JavaScript numbers that carry times (timestamps, rates, thresholds) are values of a
    type variable \<open>'n\<close>. The definitions use only the syntax of \<open>+\<close>, \<open>-\<close>, \<open>*\<close>, \<open>/\<close>,
    \<open>abs\<close>, \<open>>\<close> and numerals on it and the theorems use no law of arithmetic, so they hold
    for every interpretation of these operations; closed examples are evaluated at
    \<open>real\<close> on small integers, where a double computes the same value.
  \<^item> The numeric identity of a \<open>Mods\<close> object is an integer bit mask. A field that holds
    it is a \<open>jsnum\<close>, which also has the two non-numbers a field of TypeScript type
    \<open>number | null\<close> can hold at run time: \<open>null\<close>, and \<open>undefined\<close> for a field that
    was declared without initialiser. \<open>===\<close> and \<open>!==\<close> on such values are equality and
    disequality of \<open>jsnum\<close> (there is no NaN among mod identities).
  \<^item> The collaborators (\<open>Renderer\<close>, \<open>GameInstance\<close>, \<open>AudioHandler\<close>, \<open>Settings\<close>,
    \<open>console\<close>, \<open>requestAnimationFrame\<close>, and the \<open>setMods\<close> method of \<open>Beatmap\<close>) are not
    part of the file. Every call of one of their methods and every assignment to one of
    their properties is appended to the field \<open>events\<close>, in program order; the two
    properties the class assigns (\<open>renderer.timestamp\<close>, \<open>gameInstance.time\<close>) and the
    three settings it reads are kept as fields as well.
  \<^item> \<open>Mods\<close> objects are never mutated by the class, only replaced, so a beatmap, a
    replay and the class can hold them by value.
  \<^item> \<open>loadBeatmapAssets\<close> assigns no field of the class (it hands the audio and the
    background to the collaborators and registers settings listeners) and is left out.
\<close>

subsection \<open>Data\<close>

datatype jsnum = Undefined | Null | Num int

record Mods =
  numeric :: jsnum

text \<open>
  Modelled from the spec: the class \<open>Beatmap\<close> (\<open>src/osu/Beatmap/Beatmap.ts\<close>) is missing.
  The spec gives its interface as \<open>getMods() -> ModifierSet\<close>, \<open>setMods(ModifierSet)\<close> on
  a mutable ModifierSet that the core may overwrite.
\<close>

record Beatmap =
  beatmap_mods :: Mods

definition getMods :: "Beatmap \<Rightarrow> Mods" where
  "getMods b = beatmap_mods b"

definition setMods :: "Mods \<Rightarrow> Beatmap \<Rightarrow> Beatmap" where
  "setMods m b = b\<lparr>beatmap_mods := m\<rparr>"

text \<open>
  Modelled from the spec: the class \<open>Replay\<close> (\<open>src/osu/Replay/Replay.ts\<close>) is missing;
  the spec gives it a mutable field \<open>mods: ModifierSet\<close>, here \<open>replay_mods\<close>.
\<close>

record Replay =
  replay_mods :: Mods

text \<open>The settings the class reads with \<open>Settings.get\<close> in \<open>loop\<close>.\<close>

record 'n Settings =
  AudioAutoSyncEnabled :: bool
  AudioAutoSyncThresholdMS :: 'n
  AudioAutoSyncDetectIssue :: bool

text \<open>
  What \<open>audioHandler.getAudioCurrentTimeMS("beatmap")\<close> and
  \<open>audioHandler.getAudioOffsetMS("beatmap")\<close> return when a tick asks for them.
\<close>

record 'n AudioHandler =
  getAudioCurrentTimeMS :: 'n
  getAudioOffsetMS :: 'n

datatype 'n event =
    BeatmapSetMods Mods
  | GameLoadBeatmap Beatmap
  | RendererLoadBeatmap Beatmap
  | GameLoadReplay Replay
  | RendererLoadReplay Replay
  | RendererSetTimestamp 'n
  | GameSetTime 'n
  | AudioSetPlaybackRate string 'n
  | AudioPlay string
  | AudioPause string
  | AudioSeek string 'n
  | ConsoleWarn string
  | SettingsSet string bool
  | RequestAnimationFrame

text \<open>
  The fields of the class; a leading underscore of the source is written \<open>u_\<close>.
  \<open>u_autoSyncCount\<close> only ever holds a small integer. \<open>renderer_timestamp\<close> is
  \<open>this.renderer.timestamp\<close>, \<open>gameInstance_time\<close> is \<open>this.gameInstance.time\<close>.
\<close>

record 'n ReplayTale =
  beatmap :: "Beatmap option"
  replay :: "Replay option"
  isModsOverriden :: bool
  u_replayModsNumeric :: jsnum
  mods :: "Mods option"
  isPaused :: bool
  timestamp :: 'n
  u_playbackRate :: 'n
  u_autoSyncCount :: int
  u_autoSyncLastTime :: 'n
  lastFrameTimestamp :: 'n
  renderer_timestamp :: 'n
  gameInstance_time :: 'n
  settings :: "'n Settings"
  events :: "'n event list"

definition emit :: "'n event \<Rightarrow> 'n ReplayTale \<Rightarrow> 'n ReplayTale" where
  "emit e s = s\<lparr>events := events s @ [e]\<rparr>"

text \<open>
  The field initialisers and the constructor. \<open>_replayModsNumeric\<close> is declared without an
  initialiser (line 18), so it is \<open>undefined\<close> on a new object. The settings store and the
  initial \<open>timestamp\<close> of the renderer and \<open>time\<close> of the game instance belong to the
  collaborators and are parameters.
\<close>

definition constructor :: "('n::{zero,one}) Settings \<Rightarrow> 'n \<Rightarrow> 'n \<Rightarrow> 'n ReplayTale" where
  "constructor cfg rt gt =
    \<lparr> beatmap = None, replay = None, isModsOverriden = False,
      u_replayModsNumeric = Undefined, mods = None, isPaused = True,
      timestamp = 0, u_playbackRate = 1, u_autoSyncCount = 0,
      u_autoSyncLastTime = 0, lastFrameTimestamp = 0,
      renderer_timestamp = rt, gameInstance_time = gt,
      settings = cfg, events = [] \<rparr>"

subsection \<open>Mods reconciliation\<close>

definition loadBeatmap :: "Beatmap \<Rightarrow> 'n ReplayTale \<Rightarrow> 'n ReplayTale" where
  "loadBeatmap beatmap0 s0 =
    (let (b1, s1) = (case mods s0 of
                       Some m \<Rightarrow> (setMods m beatmap0, emit (BeatmapSetMods m) s0)
                     | None \<Rightarrow> (beatmap0, s0));
         (b2, s2) = (case (mods s1, replay s1) of
                       (None, Some r) \<Rightarrow>
                         if numeric (replay_mods r) \<noteq> numeric (getMods b1)
                         then (setMods (replay_mods r) b1,
                               emit (BeatmapSetMods (replay_mods r)) s1)
                         else (b1, s1)
                     | _ \<Rightarrow> (b1, s1));
         s3 = s2\<lparr>beatmap := Some b2\<rparr>;
         s4 = emit (GameLoadBeatmap b2) s3
     in emit (RendererLoadBeatmap b2) s4)"

definition loadReplay :: "Replay \<Rightarrow> 'n ReplayTale \<Rightarrow> 'n ReplayTale" where
  "loadReplay replay0 s0 =
    (let s1 = s0\<lparr>u_replayModsNumeric := numeric (replay_mods replay0)\<rparr>;
         r1 = (case mods s1 of
                 Some m \<Rightarrow> replay0\<lparr>replay_mods := m\<rparr>
               | None \<Rightarrow> replay0);
         s2 = (case beatmap s1 of
                 Some b \<Rightarrow>
                   if numeric (getMods b) \<noteq> numeric (replay_mods r1)
                   then emit (BeatmapSetMods (replay_mods r1))
                          (s1\<lparr>beatmap := Some (setMods (replay_mods r1) b)\<rparr>)
                   else s1
               | None \<Rightarrow> s1);
         s3 = s2\<lparr>replay := Some r1\<rparr>;
         s4 = emit (GameLoadReplay r1) s3
     in emit (RendererLoadReplay r1) s4)"

definition enableModsOverride :: "Mods \<Rightarrow> 'n ReplayTale \<Rightarrow> 'n ReplayTale" where
  "enableModsOverride mods0 s0 =
    (let s1 = s0\<lparr>isModsOverriden := True\<rparr> in
     if numeric mods0 = (case mods s1 of Some m \<Rightarrow> numeric m | None \<Rightarrow> Undefined)
     then s1
     else
       let s2 = s1\<lparr>mods := Some mods0\<rparr>;
           s3 = (case replay s2 of
                   Some r \<Rightarrow> s2\<lparr>replay := Some (r\<lparr>replay_mods := mods0\<rparr>)\<rparr>
                 | None \<Rightarrow> s2)
       in (case beatmap s3 of
             Some b \<Rightarrow>
               let oldMods = numeric (getMods b);
                   b1 = setMods mods0 b;
                   s4 = emit (BeatmapSetMods mods0) (s3\<lparr>beatmap := Some b1\<rparr>)
               in if oldMods \<noteq> numeric mods0
                  then emit (RendererLoadBeatmap b1) s4
                  else s4
           | None \<Rightarrow> s3))"

text \<open>
  \<open>new Mods(n)\<close> is a constructor of the missing class \<open>Mods\<close>; \<open>disableModsOverride\<close>
  takes it as the parameter \<open>new_Mods\<close>.
\<close>

definition disableModsOverride ::
    "(jsnum \<Rightarrow> Mods) \<Rightarrow> 'n ReplayTale \<Rightarrow> 'n ReplayTale" where
  "disableModsOverride new_Mods s0 =
    (let s1 = s0\<lparr>mods := None\<rparr> in
     if u_replayModsNumeric s1 = Null
     then s1
     else
       let oldReplayMods = new_Mods (u_replayModsNumeric s1);
           s2 = (case replay s1 of
                   Some r \<Rightarrow> s1\<lparr>replay := Some (r\<lparr>replay_mods := oldReplayMods\<rparr>)\<rparr>
                 | None \<Rightarrow> s1)
       in (case beatmap s2 of
             Some b \<Rightarrow>
               let oldMapMods = numeric (getMods b);
                   b1 = setMods oldReplayMods b;
                   s3 = emit (BeatmapSetMods oldReplayMods) (s2\<lparr>beatmap := Some b1\<rparr>)
               in if oldMapMods \<noteq> numeric oldReplayMods
                  then emit (RendererLoadBeatmap b1) s3
                  else s3
           | None \<Rightarrow> s2))"

subsection \<open>Clock and drift correction\<close>

definition playbackRate :: "'n ReplayTale \<Rightarrow> 'n" where
  "playbackRate s = u_playbackRate s"

definition set_playbackRate :: "'n \<Rightarrow> 'n ReplayTale \<Rightarrow> 'n ReplayTale" where
  "set_playbackRate v s =
     emit (AudioSetPlaybackRate ''beatmap'' v) (s\<lparr>u_playbackRate := v\<rparr>)"

text \<open>
  One invocation of the arrow function \<open>loop\<close>: \<open>time\<close> is the argument the frame
  scheduler passes, \<open>audioHandler\<close> what the audio collaborator reports during this tick.
  The last statement, \<open>requestAnimationFrame(this.loop)\<close>, hands the next invocation to
  the scheduler and is an event.
\<close>

definition loop ::
    "('n::{plus,minus,times,inverse,abs,ord,numeral}) \<Rightarrow> 'n AudioHandler \<Rightarrow> 'n ReplayTale \<Rightarrow> 'n ReplayTale" where
  "loop time audioHandler s0 =
    (if isPaused s0 then s0
     else
       let deltaTime = time - lastFrameTimestamp s0;
           s1 = s0\<lparr>timestamp := timestamp s0 + deltaTime * playbackRate s0\<rparr>;
           s2 = emit (RendererSetTimestamp (timestamp s1))
                  (s1\<lparr>renderer_timestamp := timestamp s1\<rparr>);
           s3 = emit (GameSetTime (timestamp s2))
                  (s2\<lparr>gameInstance_time := timestamp s2\<rparr>);
           s4 = s3\<lparr>lastFrameTimestamp := time\<rparr>;
           s5 = (if AudioAutoSyncEnabled (settings s4) then
                   let currTime = getAudioCurrentTimeMS audioHandler;
                       offset = getAudioOffsetMS audioHandler;
                       timeDiff = currTime - offset - timestamp s4
                   in if abs timeDiff > AudioAutoSyncThresholdMS (settings s4) then
                        let a1 = emit (AudioSeek ''beatmap'' (timestamp s4 / 1000)) s4
                        in if AudioAutoSyncDetectIssue (settings a1) then
                             let a2 = a1\<lparr>u_autoSyncCount := u_autoSyncCount a1 + 1\<rparr>;
                                 a3 = (if timestamp a2 - u_autoSyncLastTime a2 > 1000
                                       then a2\<lparr>u_autoSyncCount := 0\<rparr>
                                       else a2)
                             in a3\<lparr>u_autoSyncLastTime := time\<rparr>
                           else a1
                      else s4
                 else s4);
           s6 = (if u_autoSyncCount s5 > 10 then
                   let w1 = emit (ConsoleWarn
                              ''[Audio] Auto sync issue detected! Disabling audio auto sync!'') s5;
                       w2 = emit (SettingsSet ''AudioAutoSyncEnabled'' False)
                              (w1\<lparr>settings := (settings w1)\<lparr>AudioAutoSyncEnabled := False\<rparr>\<rparr>)
                   in w2\<lparr>u_autoSyncCount := 0\<rparr>
                 else s5)
       in emit RequestAnimationFrame s6)"

text \<open>\<open>play\<close>: \<open>now\<close> is the value of \<open>performance.now()\<close>.\<close>

definition play ::
    "('n::{plus,minus,times,inverse,abs,ord,numeral}) \<Rightarrow> 'n AudioHandler \<Rightarrow> 'n ReplayTale \<Rightarrow> 'n ReplayTale" where
  "play now audioHandler s0 =
    (let s1 = s0\<lparr>isPaused := False\<rparr>;
         s2 = s1\<lparr>lastFrameTimestamp := now\<rparr>;
         s3 = emit (AudioPlay ''beatmap'') s2;
         s4 = emit (AudioSeek ''beatmap'' (timestamp s3 / 1000)) s3
     in loop (lastFrameTimestamp s4) audioHandler s4)"

definition pause :: "'n ReplayTale \<Rightarrow> 'n ReplayTale" where
  "pause s0 = emit (AudioPause ''beatmap'') (s0\<lparr>isPaused := True\<rparr>)"

definition seek :: "('n::{inverse,numeral}) \<Rightarrow> 'n ReplayTale \<Rightarrow> 'n ReplayTale" where
  "seek timestamp0 s0 =
    (let s1 = s0\<lparr>timestamp := timestamp0\<rparr>;
         s2 = emit (RendererSetTimestamp timestamp0) (s1\<lparr>renderer_timestamp := timestamp0\<rparr>)
     in emit (AudioSeek ''beatmap'' (timestamp0 / 1000)) s2)"

text \<open>
  The frame scheduler: one invocation of \<open>loop\<close> per frame, each with its time and the
  audio readings of that moment.
\<close>

fun run ::
    "(('n::{plus,minus,times,inverse,abs,ord,numeral}) \<times> 'n AudioHandler) list \<Rightarrow> 'n ReplayTale \<Rightarrow> 'n ReplayTale" where
  "run [] s = s"
| "run ((time, audioHandler) # frames) s = run frames (loop time audioHandler s)"

subsection \<open>Observations used in the statements\<close>

text \<open>
  The mods identity of the loaded beatmap and of the loaded replay (\<open>None\<close> when none is
  loaded).
\<close>

definition beatmapModsNumeric :: "'n ReplayTale \<Rightarrow> jsnum option" where
  "beatmapModsNumeric s = map_option (\<lambda>b. numeric (getMods b)) (beatmap s)"

definition replayModsNumeric :: "'n ReplayTale \<Rightarrow> jsnum option" where
  "replayModsNumeric s = map_option (\<lambda>r. numeric (replay_mods r)) (replay s)"

text \<open>
  The value \<open>loop\<close> assigns to \<open>this.timestamp\<close>, and its two tests on a tick at \<open>time\<close>:
  \<open>corrects\<close> is the test \<open>Math.abs(timeDiff) > threshold\<close> that re-seeks the audio,
  \<open>windowReset\<close> the test \<open>this.timestamp - this._autoSyncLastTime > 1000\<close> that resets
  the counter; both read the timestamp after the tick has advanced it.
\<close>

definition newTimestamp :: "('n::{plus,minus,times}) \<Rightarrow> 'n ReplayTale \<Rightarrow> 'n" where
  "newTimestamp time s = timestamp s + (time - lastFrameTimestamp s) * playbackRate s"

definition corrects ::
    "('n::{plus,minus,times,abs,ord,numeral}) \<Rightarrow> 'n AudioHandler \<Rightarrow> 'n ReplayTale \<Rightarrow> bool" where
  "corrects time audioHandler s =
     (abs (getAudioCurrentTimeMS audioHandler - getAudioOffsetMS audioHandler - newTimestamp time s)
        > AudioAutoSyncThresholdMS (settings s))"

definition windowReset :: "('n::{plus,minus,times,ord,numeral}) \<Rightarrow> 'n ReplayTale \<Rightarrow> bool" where
  "windowReset time s = (newTimestamp time s - u_autoSyncLastTime s > 1000)"

definition autoSyncWarning :: "'n event" where
  "autoSyncWarning = ConsoleWarn ''[Audio] Auto sync issue detected! Disabling audio auto sync!''"

definition autoSyncDisable :: "'n event" where
  "autoSyncDisable = SettingsSet ''AudioAutoSyncEnabled'' False"

fun isAudioSeek :: "'n event \<Rightarrow> bool" where
  "isAudioSeek (AudioSeek track seconds) = True"
| "isAudioSeek e = False"

subsection \<open>The body of \<open>loop\<close> in three blocks\<close>

text \<open>
  The statements of \<open>loop\<close> after the pause test, cut at lines 149/150 and 168/169 of
  the source: the advance of the clock, the drift correction, and the check of the
  counter. They are only a device for the proofs; lemma \<open>loop_blocks\<close> shows that \<open>loop\<close>
  is their composition.
\<close>

definition advance :: "('n::{plus,minus,times}) \<Rightarrow> 'n ReplayTale \<Rightarrow> 'n ReplayTale" where
  "advance time s0 =
     (let deltaTime = time - lastFrameTimestamp s0;
          s1 = s0\<lparr>timestamp := timestamp s0 + deltaTime * playbackRate s0\<rparr>;
          s2 = emit (RendererSetTimestamp (timestamp s1))
                 (s1\<lparr>renderer_timestamp := timestamp s1\<rparr>);
          s3 = emit (GameSetTime (timestamp s2))
                 (s2\<lparr>gameInstance_time := timestamp s2\<rparr>)
      in s3\<lparr>lastFrameTimestamp := time\<rparr>)"

definition driftCorrection ::
    "('n::{minus,inverse,abs,ord,numeral}) \<Rightarrow> 'n AudioHandler \<Rightarrow> 'n ReplayTale \<Rightarrow> 'n ReplayTale" where
  "driftCorrection time audioHandler s4 =
     (if AudioAutoSyncEnabled (settings s4) then
        let currTime = getAudioCurrentTimeMS audioHandler;
            offset = getAudioOffsetMS audioHandler;
            timeDiff = currTime - offset - timestamp s4
        in if abs timeDiff > AudioAutoSyncThresholdMS (settings s4) then
             let a1 = emit (AudioSeek ''beatmap'' (timestamp s4 / 1000)) s4
             in if AudioAutoSyncDetectIssue (settings a1) then
                  let a2 = a1\<lparr>u_autoSyncCount := u_autoSyncCount a1 + 1\<rparr>;
                      a3 = (if timestamp a2 - u_autoSyncLastTime a2 > 1000
                            then a2\<lparr>u_autoSyncCount := 0\<rparr>
                            else a2)
                  in a3\<lparr>u_autoSyncLastTime := time\<rparr>
                else a1
           else s4
      else s4)"

definition issueCheck :: "'n ReplayTale \<Rightarrow> 'n ReplayTale" where
  "issueCheck s5 =
     (if u_autoSyncCount s5 > 10 then
        let w1 = emit (ConsoleWarn
                   ''[Audio] Auto sync issue detected! Disabling audio auto sync!'') s5;
            w2 = emit (SettingsSet ''AudioAutoSyncEnabled'' False)
                   (w1\<lparr>settings := (settings w1)\<lparr>AudioAutoSyncEnabled := False\<rparr>\<rparr>)
        in w2\<lparr>u_autoSyncCount := 0\<rparr>
      else s5)"

subsection \<open>Concrete inputs\<close>

text \<open>
  Modelled from the spec: the class \<open>Mods\<close> (\<open>src/osu/Mods/Mods.ts\<close>) is missing; the spec
  says that a ModifierSet is reconstructed from a numeric identity. \<open>Mods_of\<close> is such a
  constructor, used for the concrete examples only.
\<close>

definition Mods_of :: "jsnum \<Rightarrow> Mods" where
  "Mods_of n = \<lparr> numeric = n \<rparr>"

definition noModBeatmap :: Beatmap where
  "noModBeatmap = \<lparr> beatmap_mods = Mods_of (Num 0) \<rparr>"

definition hiddenReplay :: Replay where
  "hiddenReplay = \<lparr> replay_mods = Mods_of (Num 8) \<rparr>"

text \<open>
  A settings store with auto-sync on and a threshold of 50 ms, an audio track in step with
  the clock and one far ahead of it, a new object, and the object after \<open>play()\<close> at
  \<open>performance.now() = 0\<close>.
\<close>

definition exampleSettings :: "bool \<Rightarrow> real Settings" where
  "exampleSettings detect =
     \<lparr> AudioAutoSyncEnabled = True, AudioAutoSyncThresholdMS = 50,
       AudioAutoSyncDetectIssue = detect \<rparr>"

definition inSync :: "real AudioHandler" where
  "inSync = \<lparr> getAudioCurrentTimeMS = 0, getAudioOffsetMS = 0 \<rparr>"

definition drifted :: "real AudioHandler" where
  "drifted = \<lparr> getAudioCurrentTimeMS = 5000, getAudioOffsetMS = 0 \<rparr>"

definition fresh :: "bool \<Rightarrow> real ReplayTale" where
  "fresh detect = constructor (exampleSettings detect) 0 0"

definition playing :: "bool \<Rightarrow> real ReplayTale" where
  "playing detect = play 0 inSync (fresh detect)"

text \<open>An audio track that reports the position \<open>ms\<close> and the offset 0.\<close>

definition audioAt :: "real \<Rightarrow> real AudioHandler" where
  "audioAt ms = \<lparr> getAudioCurrentTimeMS = ms, getAudioOffsetMS = 0 \<rparr>"

text \<open>
  A new object with issue-detection on after \<open>play()\<close> at \<open>performance.now() = 5000\<close>, and
  the same after a tick at 5010 that finds the audio 4990 ms ahead.
\<close>

definition playingAt5000 :: "real ReplayTale" where
  "playingAt5000 = play 5000 inSync (fresh True)"

definition firstCorrection :: "real ReplayTale" where
  "firstCorrection = loop 5010 drifted playingAt5000"

text \<open>
  A new object with issue-detection on after \<open>seek(100000)\<close> and \<open>play()\<close> at
  \<open>performance.now() = 0\<close> with the audio at 100000 ms, and thirteen frames 10 ms apart
  on each of which the audio reports position 0.
\<close>

definition seekedPlaying :: "real ReplayTale" where
  "seekedPlaying = play 0 (audioAt 100000) (seek 100000 (fresh True))"

definition thirteenFrames :: "(real \<times> real AudioHandler) list" where
  "thirteenFrames =
     [(10, audioAt 0), (20, audioAt 0), (30, audioAt 0), (40, audioAt 0), (50, audioAt 0),
      (60, audioAt 0), (70, audioAt 0), (80, audioAt 0), (90, audioAt 0), (100, audioAt 0),
      (110, audioAt 0), (120, audioAt 0), (130, audioAt 0)]"

section \<open>Mods reconciliation: theorems\<close>

lemma enable_keeps_replayModsNumeric:
  "u_replayModsNumeric (enableModsOverride M s) = u_replayModsNumeric s"
  by (simp add: enableModsOverride_def emit_def Let_def split: option.splits)

lemma enable_keeps_replay_loaded:
  "replay s \<noteq> None \<Longrightarrow> replay (enableModsOverride M s) \<noteq> None"
  by (auto simp add: enableModsOverride_def emit_def Let_def split: option.splits)

lemma enable_keeps_beatmap_loaded:
  "(beatmap (enableModsOverride M s) = None) = (beatmap s = None)"
  by (simp add: enableModsOverride_def emit_def Let_def split: option.splits)

lemma fold_enable_keeps_numeric:
  "u_replayModsNumeric (fold enableModsOverride Ms s) = u_replayModsNumeric s"
  by (induction Ms arbitrary: s) (simp_all add: enable_keeps_replayModsNumeric)

lemma fold_enable_keeps_replay_loaded:
  "replay s \<noteq> None \<Longrightarrow> replay (fold enableModsOverride Ms s) \<noteq> None"
proof (induction Ms arbitrary: s)
  case Nil
  then show ?case by simp
next
  case (Cons M Ms)
  from Cons.prems have "replay (enableModsOverride M s) \<noteq> None"
    by (rule enable_keeps_replay_loaded)
  then show ?case using Cons.IH by simp
qed

lemma fold_enable_keeps_beatmap_loaded:
  "(beatmap (fold enableModsOverride Ms s) = None) = (beatmap s = None)"
  by (induction Ms arbitrary: s) (simp_all add: enable_keeps_beatmap_loaded)

lemma loadReplay_captures:
  "u_replayModsNumeric (loadReplay R s) = numeric (replay_mods R)"
  "replay (loadReplay R s) \<noteq> None"
  "(beatmap (loadReplay R s) = None) = (beatmap s = None)"
  by (simp_all add: loadReplay_def emit_def Let_def split: option.splits)

lemma disable_restores:
  assumes "u_replayModsNumeric s = Num r" and "replay s \<noteq> None"
    and "numeric (new_Mods (Num r)) = Num r"
  shows "replayModsNumeric (disableModsOverride new_Mods s) = Some (Num r)"
    and "beatmapModsNumeric (disableModsOverride new_Mods s) = map_option (\<lambda>b. Num r) (beatmap s)"
  using assms
  by (auto simp add: disableModsOverride_def emit_def Let_def replayModsNumeric_def
      beatmapModsNumeric_def getMods_def setMods_def split: option.splits)

text \<open>
  C1. A replay \<open>R\<close> whose mods identity is the number \<open>r\<close> is loaded into any state \<open>s\<close>
  (with or without an override, with or without a beatmap). After any sequence \<open>Ms\<close> of
  \<open>enableModsOverride\<close> calls and one \<open>disableModsOverride\<close>, the mods identity of the
  replay is \<open>r\<close> again, and so is that of the beatmap when one is loaded. The constructor
  \<open>new Mods(r)\<close> of the missing class is assumed to build a set of identity \<open>r\<close>.
\<close>

theorem override_round_trip:
  assumes "numeric (replay_mods R) = Num r"
    and "numeric (new_Mods (Num r)) = Num r"
  shows "replayModsNumeric
           (disableModsOverride new_Mods (fold enableModsOverride Ms (loadReplay R s)))
         = Some (Num r)
       \<and> beatmapModsNumeric
           (disableModsOverride new_Mods (fold enableModsOverride Ms (loadReplay R s)))
         = map_option (\<lambda>b. Num r) (beatmap s)"
proof -
  let ?s = "fold enableModsOverride Ms (loadReplay R s)"
  have a: "u_replayModsNumeric ?s = Num r"
    using assms(1) by (simp add: fold_enable_keeps_numeric loadReplay_captures)
  have b: "replay ?s \<noteq> None"
    by (simp add: fold_enable_keeps_replay_loaded loadReplay_captures)
  have c: "(beatmap ?s = None) = (beatmap s = None)"
    by (simp add: fold_enable_keeps_beatmap_loaded loadReplay_captures)
  have d: "map_option (\<lambda>b. Num r) (beatmap ?s) = map_option (\<lambda>b. Num r) (beatmap s)"
    using c by (cases "beatmap ?s"; cases "beatmap s") simp_all
  show ?thesis
    using disable_restores[of ?s r new_Mods] a b assms(2) d by simp
qed

theorem override_round_trip_witness:
  "numeric (replay_mods hiddenReplay) = Num 8 \<and> numeric (Mods_of (Num 8)) = Num 8 \<and>
   replayModsNumeric
     (disableModsOverride Mods_of
        (fold enableModsOverride [Mods_of (Num 16), Mods_of (Num 64)]
           (loadReplay hiddenReplay (loadBeatmap noModBeatmap (fresh True)))))
     = Some (Num 8) \<and>
   beatmapModsNumeric
     (disableModsOverride Mods_of
        (fold enableModsOverride [Mods_of (Num 16), Mods_of (Num 64)]
           (loadReplay hiddenReplay (loadBeatmap noModBeatmap (fresh True)))))
     = Some (Num 8)"
proof -
  have h1: "numeric (replay_mods hiddenReplay) = Num 8"
    by (simp add: hiddenReplay_def Mods_of_def)
  have h2: "numeric (Mods_of (Num 8)) = Num 8"
    by (simp add: Mods_of_def)
  have b: "beatmap (loadBeatmap noModBeatmap (fresh True)) \<noteq> None"
    by (simp add: loadBeatmap_def fresh_def constructor_def emit_def Let_def)
  show ?thesis
    using override_round_trip[where R = hiddenReplay and r = 8 and new_Mods = Mods_of
        and Ms = "[Mods_of (Num 16), Mods_of (Num 64)]"
        and s = "loadBeatmap noModBeatmap (fresh True)"]
      h1 h2 b
    by auto
qed

text \<open>
  C2 (the code does otherwise). On a new object \<open>_replayModsNumeric\<close> is \<open>undefined\<close>, not
  \<open>null\<close>, and loading a beatmap does not assign it. The guard
  \<open>this._replayModsNumeric === null\<close> of \<open>disableModsOverride\<close> is therefore false, and the
  method goes on: it calls \<open>setMods(new Mods(undefined))\<close> on the loaded beatmap and
  signals a geometry reload when the identity of that set differs from the beatmap's.
\<close>

theorem disableModsOverride_without_replay:
  "u_replayModsNumeric (loadBeatmap B (constructor cfg rt gt)) = Undefined \<and>
   beatmap (disableModsOverride new_Mods (loadBeatmap B (constructor cfg rt gt)))
     = Some (setMods (new_Mods Undefined) B) \<and>
   events (disableModsOverride new_Mods (loadBeatmap B (constructor cfg rt gt)))
     = events (loadBeatmap B (constructor cfg rt gt))
       @ BeatmapSetMods (new_Mods Undefined)
       # (if numeric (getMods B) \<noteq> numeric (new_Mods Undefined)
          then [RendererLoadBeatmap (setMods (new_Mods Undefined) B)] else [])"
  by (simp add: disableModsOverride_def loadBeatmap_def constructor_def emit_def Let_def
      getMods_def setMods_def)

text \<open>
  C3 (the code does otherwise). \<open>enableModsOverride\<close> sets \<open>isModsOverriden\<close> on both of
  its paths, but \<open>disableModsOverride\<close> never assigns the flag: after an override has been
  enabled and disabled again the flag is still true.
\<close>

theorem isModsOverriden_after_disable:
  "isModsOverriden (enableModsOverride M s) \<and>
   isModsOverriden (disableModsOverride new_Mods s) = isModsOverriden s \<and>
   isModsOverriden (disableModsOverride new_Mods (enableModsOverride M s))"
  by (simp add: enableModsOverride_def disableModsOverride_def emit_def Let_def
      split: option.splits)

text \<open>
  C4. With no override active, loading a beatmap \<open>B\<close> and then a replay \<open>R\<close>, or \<open>R\<close> and
  then \<open>B\<close>, ends in both orders with the mods identity of the loaded beatmap and of the
  loaded replay equal to the identity \<open>R\<close> came with (whether or not the two differed).
\<close>

theorem load_order_independence:
  assumes "mods s = None"
  shows "beatmapModsNumeric (loadReplay R (loadBeatmap B s)) = Some (numeric (replay_mods R)) \<and>
         replayModsNumeric (loadReplay R (loadBeatmap B s)) = Some (numeric (replay_mods R)) \<and>
         beatmapModsNumeric (loadBeatmap B (loadReplay R s)) = Some (numeric (replay_mods R)) \<and>
         replayModsNumeric (loadBeatmap B (loadReplay R s)) = Some (numeric (replay_mods R))"
  using assms
  by (auto simp add: loadReplay_def loadBeatmap_def emit_def Let_def replayModsNumeric_def
      beatmapModsNumeric_def getMods_def setMods_def split: option.splits prod.splits)

theorem load_order_independence_witness:
  "mods (fresh True) = None \<and>
   numeric (getMods noModBeatmap) \<noteq> numeric (replay_mods hiddenReplay) \<and>
   beatmapModsNumeric (loadReplay hiddenReplay (loadBeatmap noModBeatmap (fresh True))) = Some (Num 8) \<and>
   replayModsNumeric (loadReplay hiddenReplay (loadBeatmap noModBeatmap (fresh True))) = Some (Num 8) \<and>
   beatmapModsNumeric (loadBeatmap noModBeatmap (loadReplay hiddenReplay (fresh True))) = Some (Num 8) \<and>
   replayModsNumeric (loadBeatmap noModBeatmap (loadReplay hiddenReplay (fresh True))) = Some (Num 8)"
proof -
  have h: "mods (fresh True) = None"
    by (simp add: fresh_def constructor_def)
  show ?thesis
    using load_order_independence[OF h, of hiddenReplay noModBeatmap] h
    by (simp add: hiddenReplay_def noModBeatmap_def Mods_of_def getMods_def)
qed

text \<open>
  C8. A second \<open>enableModsOverride(M)\<close> right after the first changes nothing: the state,
  which holds the log of all calls to the collaborators, is the same, so no
  \<open>renderer.loadBeatmap\<close> is issued.
\<close>

theorem enableModsOverride_idempotent:
  "enableModsOverride M (enableModsOverride M s) = enableModsOverride M s"
  by (simp add: enableModsOverride_def emit_def Let_def split: option.splits)

section \<open>Clock and drift correction: theorems\<close>

lemma loop_blocks:
  "loop time a s =
     (if isPaused s then s
      else emit RequestAnimationFrame (issueCheck (driftCorrection time a (advance time s))))"
  unfolding loop_def advance_def driftCorrection_def issueCheck_def Let_def
  by (rule refl)

lemma advance_eq:
  "advance time s =
     s\<lparr>timestamp := newTimestamp time s,
       renderer_timestamp := newTimestamp time s,
       gameInstance_time := newTimestamp time s,
       lastFrameTimestamp := time,
       events := events s @ [RendererSetTimestamp (newTimestamp time s),
                             GameSetTime (newTimestamp time s)]\<rparr>"
  by (simp add: advance_def newTimestamp_def emit_def Let_def)

lemma driftCorrection_eq:
  "driftCorrection time a s =
     (if AudioAutoSyncEnabled (settings s) \<and>
         abs (getAudioCurrentTimeMS a - getAudioOffsetMS a - timestamp s)
           > AudioAutoSyncThresholdMS (settings s)
      then if AudioAutoSyncDetectIssue (settings s)
           then s\<lparr>u_autoSyncCount :=
                    (if timestamp s - u_autoSyncLastTime s > 1000 then 0
                     else u_autoSyncCount s + 1),
                  u_autoSyncLastTime := time,
                  events := events s @ [AudioSeek ''beatmap'' (timestamp s / 1000)]\<rparr>
           else s\<lparr>events := events s @ [AudioSeek ''beatmap'' (timestamp s / 1000)]\<rparr>
      else s)"
  by (simp add: driftCorrection_def emit_def Let_def)

lemma issueCheck_eq:
  "issueCheck s =
     (if u_autoSyncCount s > 10
      then s\<lparr>u_autoSyncCount := 0,
             settings := (settings s)\<lparr>AudioAutoSyncEnabled := False\<rparr>,
             events := events s @ [autoSyncWarning, autoSyncDisable]\<rparr>
      else s)"
  by (simp add: issueCheck_def emit_def Let_def autoSyncWarning_def autoSyncDisable_def)

lemma loop_paused: "isPaused s \<Longrightarrow> loop time a s = s"
  by (simp add: loop_def)

lemma run_paused: "isPaused s \<Longrightarrow> run frames s = s"
  by (induction frames arbitrary: s) (auto simp add: loop_paused)

lemma driftCorrection_events:
  "\<exists>m. events (driftCorrection time a s) = events s @ m \<and> RequestAnimationFrame \<notin> set m"
  by (simp add: driftCorrection_eq)

lemma issueCheck_events:
  "\<exists>m. events (issueCheck s) = events s @ m \<and> RequestAnimationFrame \<notin> set m"
  by (simp add: issueCheck_eq autoSyncWarning_def autoSyncDisable_def)

lemma loop_events:
  assumes "\<not> isPaused s"
  shows "\<exists>mid. events (loop time a s) =
          events s @ [RendererSetTimestamp (newTimestamp time s), GameSetTime (newTimestamp time s)]
            @ mid @ [RequestAnimationFrame] \<and> RequestAnimationFrame \<notin> set mid"
proof -
  let ?a = "advance time s"
  let ?d = "driftCorrection time a ?a"
  have l: "events (loop time a s) = events (issueCheck ?d) @ [RequestAnimationFrame]"
    using assms by (simp add: loop_blocks emit_def)
  have a: "events ?a = events s @ [RendererSetTimestamp (newTimestamp time s),
                                   GameSetTime (newTimestamp time s)]"
    by (simp add: advance_eq)
  obtain m1 where m1: "events ?d = events ?a @ m1" "RequestAnimationFrame \<notin> set m1"
    using driftCorrection_events[of time a ?a] by blast
  obtain m2 where m2: "events (issueCheck ?d) = events ?d @ m2" "RequestAnimationFrame \<notin> set m2"
    using issueCheck_events[of ?d] by blast
  show ?thesis
    by (rule exI[of _ "m1 @ m2"]) (simp add: l a m1 m2)
qed

lemma loop_clock:
  assumes "\<not> isPaused s"
  shows "timestamp (loop time a s) = newTimestamp time s"
    and "lastFrameTimestamp (loop time a s) = time"
    and "renderer_timestamp (loop time a s) = newTimestamp time s"
    and "gameInstance_time (loop time a s) = newTimestamp time s"
  using assms
  by (simp_all add: loop_blocks emit_def issueCheck_eq driftCorrection_eq advance_eq)

text \<open>The two concrete objects, evaluated.\<close>

lemma fresh_eq:
  "fresh detect =
    \<lparr> beatmap = None, replay = None, isModsOverriden = False,
      u_replayModsNumeric = Undefined, mods = None, isPaused = True,
      timestamp = 0, u_playbackRate = 1, u_autoSyncCount = 0,
      u_autoSyncLastTime = 0, lastFrameTimestamp = 0,
      renderer_timestamp = 0, gameInstance_time = 0,
      settings = exampleSettings detect, events = [] \<rparr>"
  by (simp add: fresh_def constructor_def)

lemma playing_eq:
  "playing detect =
    \<lparr> beatmap = None, replay = None, isModsOverriden = False,
      u_replayModsNumeric = Undefined, mods = None, isPaused = False,
      timestamp = 0, u_playbackRate = 1, u_autoSyncCount = 0,
      u_autoSyncLastTime = 0, lastFrameTimestamp = 0,
      renderer_timestamp = 0, gameInstance_time = 0,
      settings = exampleSettings detect,
      events = [AudioPlay ''beatmap'', AudioSeek ''beatmap'' 0, RendererSetTimestamp 0,
                GameSetTime 0, RequestAnimationFrame] \<rparr>"
  by (simp add: playing_def play_def fresh_eq Let_def emit_def loop_blocks advance_eq
      driftCorrection_eq issueCheck_eq newTimestamp_def playbackRate_def exampleSettings_def
      inSync_def)

text \<open>
  C9. A tick while paused returns the state as it is. A tick while playing sets
  \<open>timestamp\<close> to \<open>timestamp + (time - lastFrameTimestamp) * playbackRate\<close>, sets
  \<open>lastFrameTimestamp\<close> to \<open>time\<close>, assigns the new timestamp to \<open>renderer.timestamp\<close> and
  to \<open>gameInstance.time\<close>, and its calls to the collaborators are these two assignments,
  then what the drift correction does, then \<open>requestAnimationFrame\<close>, once and last.
\<close>

theorem loop_tick:
  "(isPaused s \<longrightarrow> loop time a s = s) \<and>
   (\<not> isPaused s \<longrightarrow>
      timestamp (loop time a s)
        = timestamp s + (time - lastFrameTimestamp s) * playbackRate s \<and>
      lastFrameTimestamp (loop time a s) = time \<and>
      renderer_timestamp (loop time a s) = timestamp (loop time a s) \<and>
      gameInstance_time (loop time a s) = timestamp (loop time a s) \<and>
      (\<exists>mid. events (loop time a s) =
          events s @ [RendererSetTimestamp (timestamp (loop time a s)),
                      GameSetTime (timestamp (loop time a s))]
            @ mid @ [RequestAnimationFrame] \<and> RequestAnimationFrame \<notin> set mid))"
proof (intro conjI impI)
  assume "isPaused s"
  then show "loop time a s = s" by (rule loop_paused)
next
  assume p: "\<not> isPaused s"
  then show "timestamp (loop time a s)
      = timestamp s + (time - lastFrameTimestamp s) * playbackRate s"
    by (simp add: loop_clock newTimestamp_def)
next
  assume p: "\<not> isPaused s"
  then show "lastFrameTimestamp (loop time a s) = time"
    by (simp add: loop_clock)
next
  assume p: "\<not> isPaused s"
  then show "renderer_timestamp (loop time a s) = timestamp (loop time a s)"
    by (simp add: loop_clock)
next
  assume p: "\<not> isPaused s"
  then show "gameInstance_time (loop time a s) = timestamp (loop time a s)"
    by (simp add: loop_clock)
next
  assume p: "\<not> isPaused s"
  then show "\<exists>mid. events (loop time a s) =
          events s @ [RendererSetTimestamp (timestamp (loop time a s)),
                      GameSetTime (timestamp (loop time a s))]
            @ mid @ [RequestAnimationFrame] \<and> RequestAnimationFrame \<notin> set mid"
    using loop_events[OF p, of time a] by (simp add: loop_clock(1)[OF p])
qed

theorem loop_tick_witness:
  "isPaused (fresh True) \<and> loop 16 inSync (fresh True) = fresh True \<and>
   \<not> isPaused (playing True) \<and>
   timestamp (loop 16 inSync (playing True)) = 16 \<and>
   lastFrameTimestamp (loop 16 inSync (playing True)) = 16 \<and>
   renderer_timestamp (loop 16 inSync (playing True)) = 16 \<and>
   gameInstance_time (loop 16 inSync (playing True)) = 16 \<and>
   last (events (loop 16 inSync (playing True))) = RequestAnimationFrame"
proof -
  have h1: "isPaused (fresh True)" by (simp add: fresh_eq)
  have h2: "\<not> isPaused (playing True)" by (simp add: playing_eq)
  have v: "timestamp (playing True) + (16 - lastFrameTimestamp (playing True))
             * playbackRate (playing True) = 16"
    by (simp add: playing_eq playbackRate_def)
  show ?thesis
    using loop_tick[of "fresh True" 16 inSync] loop_tick[of "playing True" 16 inSync] h1 h2 v
    by auto
qed

text \<open>
  C10. \<open>seek(t)\<close> sets \<open>timestamp\<close> and \<open>renderer.timestamp\<close> to \<open>t\<close> and seeks the audio
  to \<open>t / 1000\<close>; these are its only calls, and \<open>gameInstance.time\<close> keeps its value. When
  the player is paused the ticks that follow change nothing either, so the game instance
  stays at its previous time.
\<close>

theorem seek_leaves_game_time:
  "gameInstance_time (seek t s) = gameInstance_time s \<and>
   timestamp (seek t s) = t \<and> renderer_timestamp (seek t s) = t \<and>
   events (seek t s) = events s @ [RendererSetTimestamp t, AudioSeek ''beatmap'' (t / 1000)] \<and>
   (isPaused s \<longrightarrow> gameInstance_time (run frames (seek t s)) = gameInstance_time s)"
proof -
  have "isPaused s \<Longrightarrow> isPaused (seek t s)"
    by (simp add: seek_def Let_def emit_def)
  then have "isPaused s \<Longrightarrow> run frames (seek t s) = seek t s"
    by (simp add: run_paused)
  then show ?thesis
    by (auto simp add: seek_def Let_def emit_def)
qed

theorem seek_leaves_game_time_witness:
  "isPaused (seek 5000 (pause (loop 16 inSync (playing True)))) \<and>
   gameInstance_time (pause (loop 16 inSync (playing True))) = 16 \<and>
   timestamp (seek 5000 (pause (loop 16 inSync (playing True)))) = 5000 \<and>
   gameInstance_time
     (run [(32, inSync), (48, inSync)] (seek 5000 (pause (loop 16 inSync (playing True))))) = 16"
proof -
  have g: "gameInstance_time (pause (loop 16 inSync (playing True))) = 16"
    by (simp add: pause_def emit_def loop_clock playing_eq newTimestamp_def playbackRate_def)
  have p: "isPaused (pause (loop 16 inSync (playing True)))"
    by (simp add: pause_def emit_def)
  have q: "isPaused (seek 5000 (pause (loop 16 inSync (playing True))))"
    by (simp add: seek_def Let_def pause_def emit_def)
  show ?thesis
    using seek_leaves_game_time[of 5000 "pause (loop 16 inSync (playing True))"
        "[(32, inSync), (48, inSync)]"] g p q
    by simp
qed

text \<open>
  C5 as stated fails: on an object that has no beatmap, \<open>seek(5)\<close> assigns
  \<open>renderer.timestamp\<close> and seeks the audio track \<open>"beatmap"\<close>, and a tick while playing
  assigns \<open>renderer.timestamp\<close> and \<open>gameInstance.time\<close> and, with the audio 5000 ms ahead,
  re-seeks that track.
\<close>

theorem no_beatmap_noop_counterexample:
  "beatmap (fresh True) = None \<and>
   renderer_timestamp (fresh True) = 0 \<and>
   renderer_timestamp (seek 5 (fresh True)) = 5 \<and>
   events (seek 5 (fresh True)) = [RendererSetTimestamp 5, AudioSeek ''beatmap'' (5 / 1000)] \<and>
   beatmap (playing True) = None \<and>
   renderer_timestamp (playing True) = 0 \<and> gameInstance_time (playing True) = 0 \<and>
   renderer_timestamp (loop 16 drifted (playing True)) = 16 \<and>
   gameInstance_time (loop 16 drifted (playing True)) = 16 \<and>
   events (loop 16 drifted (playing True))
     = events (playing True)
       @ [RendererSetTimestamp 16, GameSetTime 16, AudioSeek ''beatmap'' (16 / 1000),
          RequestAnimationFrame]"
  by (simp add: fresh_eq playing_eq seek_def Let_def emit_def loop_blocks advance_eq
      driftCorrection_eq issueCheck_eq newTimestamp_def playbackRate_def exampleSettings_def
      drifted_def)

lemma seek_beatmap_update:
  "seek t (s\<lparr>beatmap := bm\<rparr>) = (seek t s)\<lparr>beatmap := bm\<rparr>"
  by (simp add: seek_def Let_def emit_def)

lemma loop_beatmap_update:
  "loop time a (s\<lparr>beatmap := bm\<rparr>) = (loop time a s)\<lparr>beatmap := bm\<rparr>"
proof -
  have a: "advance time (s\<lparr>beatmap := bm\<rparr>) = (advance time s)\<lparr>beatmap := bm\<rparr>"
    for s :: "'a ReplayTale"
    by (simp add: advance_def playbackRate_def emit_def Let_def)
  have e: "emit x (s\<lparr>beatmap := bm\<rparr>) = (emit x s)\<lparr>beatmap := bm\<rparr>"
    for s :: "'a ReplayTale" and x
    by (simp add: emit_def)
  have d: "driftCorrection time a (s\<lparr>beatmap := bm\<rparr>)
      = (driftCorrection time a s)\<lparr>beatmap := bm\<rparr>"
    for s :: "'a ReplayTale"
    by (simp add: driftCorrection_def emit_def Let_def)
  have i: "issueCheck (s\<lparr>beatmap := bm\<rparr>) = (issueCheck s)\<lparr>beatmap := bm\<rparr>"
    for s :: "'a ReplayTale"
    by (simp add: issueCheck_def emit_def Let_def)
  show ?thesis
    by (simp add: loop_blocks a d i e)
qed

text \<open>
  C5 as amended. \<open>seek\<close> and \<open>loop\<close> never look at \<open>this.beatmap\<close>: with no beatmap loaded
  they do exactly what they do with any beatmap \<open>b\<close> loaded. A seek sets \<open>timestamp\<close> and
  \<open>renderer.timestamp\<close> to \<open>t\<close> and seeks the audio track \<open>"beatmap"\<close>; a tick while playing
  sets \<open>renderer.timestamp\<close> and \<open>gameInstance.time\<close> to the new timestamp.
\<close>

theorem no_beatmap_guard:
  assumes "beatmap s = None"
  shows "seek t s = (seek t (s\<lparr>beatmap := Some b\<rparr>))\<lparr>beatmap := None\<rparr> \<and>
         loop time a s = (loop time a (s\<lparr>beatmap := Some b\<rparr>))\<lparr>beatmap := None\<rparr> \<and>
         timestamp (seek t s) = t \<and> renderer_timestamp (seek t s) = t \<and>
         events (seek t s)
           = events s @ [RendererSetTimestamp t, AudioSeek ''beatmap'' (t / 1000)] \<and>
         (\<not> isPaused s \<longrightarrow>
            timestamp (loop time a s) = newTimestamp time s \<and>
            renderer_timestamp (loop time a s) = newTimestamp time s \<and>
            gameInstance_time (loop time a s) = newTimestamp time s)"
proof -
  have s: "s\<lparr>beatmap := None\<rparr> = s"
    using assms by simp
  have "seek t (s\<lparr>beatmap := None\<rparr>) = (seek t s)\<lparr>beatmap := None\<rparr>"
    by (rule seek_beatmap_update)
  then have k: "seek t s = (seek t s)\<lparr>beatmap := None\<rparr>"
    unfolding s .
  have "loop time a (s\<lparr>beatmap := None\<rparr>) = (loop time a s)\<lparr>beatmap := None\<rparr>"
    by (rule loop_beatmap_update)
  then have l: "loop time a s = (loop time a s)\<lparr>beatmap := None\<rparr>"
    unfolding s .
  have 1: "seek t s = (seek t (s\<lparr>beatmap := Some b\<rparr>))\<lparr>beatmap := None\<rparr>"
    using k by (simp add: seek_beatmap_update)
  have 2: "loop time a s = (loop time a (s\<lparr>beatmap := Some b\<rparr>))\<lparr>beatmap := None\<rparr>"
    using l by (simp add: loop_beatmap_update)
  have 3: "timestamp (seek t s) = t \<and> renderer_timestamp (seek t s) = t \<and>
         events (seek t s)
           = events s @ [RendererSetTimestamp t, AudioSeek ''beatmap'' (t / 1000)]"
    by (simp add: seek_def Let_def emit_def)
  have 4: "\<not> isPaused s \<longrightarrow>
            timestamp (loop time a s) = newTimestamp time s \<and>
            renderer_timestamp (loop time a s) = newTimestamp time s \<and>
            gameInstance_time (loop time a s) = newTimestamp time s"
    by (simp add: loop_clock)
  show ?thesis
    using 1 2 3 4 by blast
qed

theorem no_beatmap_guard_witness:
  "beatmap (playing True) = None \<and> \<not> isPaused (playing True) \<and>
   seek 5 (playing True)
     = (seek 5 ((playing True)\<lparr>beatmap := Some noModBeatmap\<rparr>))\<lparr>beatmap := None\<rparr> \<and>
   loop 16 drifted (playing True)
     = (loop 16 drifted ((playing True)\<lparr>beatmap := Some noModBeatmap\<rparr>))\<lparr>beatmap := None\<rparr> \<and>
   renderer_timestamp (seek 5 (playing True)) = 5 \<and>
   renderer_timestamp (loop 16 drifted (playing True)) = 16 \<and>
   gameInstance_time (loop 16 drifted (playing True)) = 16"
proof -
  have h: "beatmap (playing True) = None" by (simp add: playing_eq)
  have p: "\<not> isPaused (playing True)" by (simp add: playing_eq)
  have v: "newTimestamp 16 (playing True) = 16"
    by (simp add: newTimestamp_def playbackRate_def playing_eq)
  note t = no_beatmap_guard[OF h, of 5 noModBeatmap 16 drifted]
  from t p have l: "renderer_timestamp (loop 16 drifted (playing True)) = newTimestamp 16 (playing True)"
    "gameInstance_time (loop 16 drifted (playing True)) = newTimestamp 16 (playing True)"
    by blast+
  show ?thesis
    using t h p l[unfolded v] by blast
qed

text \<open>The objects of the two runs below, evaluated.\<close>

lemma playingAt5000_eq:
  "playingAt5000 =
    \<lparr> beatmap = None, replay = None, isModsOverriden = False,
      u_replayModsNumeric = Undefined, mods = None, isPaused = False,
      timestamp = 0, u_playbackRate = 1, u_autoSyncCount = 0,
      u_autoSyncLastTime = 0, lastFrameTimestamp = 5000,
      renderer_timestamp = 0, gameInstance_time = 0,
      settings = exampleSettings True,
      events = [AudioPlay ''beatmap'', AudioSeek ''beatmap'' 0, RendererSetTimestamp 0,
                GameSetTime 0, RequestAnimationFrame] \<rparr>"
  by (simp add: playingAt5000_def play_def fresh_eq Let_def emit_def loop_blocks advance_eq
      driftCorrection_eq issueCheck_eq newTimestamp_def playbackRate_def exampleSettings_def
      inSync_def)

lemma firstCorrection_eq:
  "firstCorrection =
    \<lparr> beatmap = None, replay = None, isModsOverriden = False,
      u_replayModsNumeric = Undefined, mods = None, isPaused = False,
      timestamp = 10, u_playbackRate = 1, u_autoSyncCount = 1,
      u_autoSyncLastTime = 5010, lastFrameTimestamp = 5010,
      renderer_timestamp = 10, gameInstance_time = 10,
      settings = exampleSettings True,
      events = [AudioPlay ''beatmap'', AudioSeek ''beatmap'' 0, RendererSetTimestamp 0,
                GameSetTime 0, RequestAnimationFrame,
                RendererSetTimestamp 10, GameSetTime 10, AudioSeek ''beatmap'' (10 / 1000),
                RequestAnimationFrame] \<rparr>"
  by (simp add: firstCorrection_def playingAt5000_eq emit_def loop_blocks advance_eq
      driftCorrection_eq issueCheck_eq newTimestamp_def playbackRate_def exampleSettings_def
      drifted_def)

lemma seekedPlaying_eq:
  "seekedPlaying =
    \<lparr> beatmap = None, replay = None, isModsOverriden = False,
      u_replayModsNumeric = Undefined, mods = None, isPaused = False,
      timestamp = 100000, u_playbackRate = 1, u_autoSyncCount = 0,
      u_autoSyncLastTime = 0, lastFrameTimestamp = 0,
      renderer_timestamp = 100000, gameInstance_time = 100000,
      settings = exampleSettings True,
      events = [RendererSetTimestamp 100000, AudioSeek ''beatmap'' 100,
                AudioPlay ''beatmap'', AudioSeek ''beatmap'' 100,
                RendererSetTimestamp 100000, GameSetTime 100000, RequestAnimationFrame] \<rparr>"
  by (simp add: seekedPlaying_def play_def seek_def fresh_eq Let_def emit_def loop_blocks
      advance_eq driftCorrection_eq issueCheck_eq newTimestamp_def playbackRate_def
      exampleSettings_def audioAt_def)

text \<open>
  C6 (the code does otherwise). \<open>play()\<close> is called at \<open>performance.now() = 5000\<close> on a new
  object with issue-detection on. The tick at 5010 re-seeks the audio: the counter is 1
  and \<open>_autoSyncLastTime\<close> is 5010, while \<open>timestamp\<close> is 10. The tick at 7010 re-seeks
  again, 2000 ms after the last counted correction on the frame clock and on the song
  clock alike. The test of line 162 subtracts the recorded frame time 5010 from the song
  timestamp 2010 and is false, so the counter is not reset: it is 2 after the correction.
  The tick's time is recorded as the last-correction time.
\<close>

theorem counter_not_reset_after_window:
  "\<not> isPaused playingAt5000 \<and>
   AudioAutoSyncEnabled (settings playingAt5000) \<and>
   AudioAutoSyncDetectIssue (settings playingAt5000) \<and>
   u_autoSyncCount playingAt5000 = 0 \<and>
   corrects 5010 drifted playingAt5000 \<and>
   u_autoSyncCount firstCorrection = 1 \<and>
   u_autoSyncLastTime firstCorrection = 5010 \<and>
   timestamp firstCorrection = 10 \<and>
   corrects 7010 drifted firstCorrection \<and>
   7010 - u_autoSyncLastTime firstCorrection = 2000 \<and>
   timestamp (loop 7010 drifted firstCorrection) - timestamp firstCorrection = 2000 \<and>
   timestamp (loop 7010 drifted firstCorrection) - u_autoSyncLastTime firstCorrection = - 3000 \<and>
   \<not> windowReset 7010 firstCorrection \<and>
   AudioSeek ''beatmap'' (2010 / 1000) \<in> set (events (loop 7010 drifted firstCorrection)) \<and>
   u_autoSyncCount (loop 7010 drifted firstCorrection) = 2 \<and>
   u_autoSyncLastTime (loop 7010 drifted firstCorrection) = 7010"
  by (simp add: playingAt5000_eq firstCorrection_eq emit_def loop_blocks advance_eq
      driftCorrection_eq issueCheck_eq newTimestamp_def playbackRate_def exampleSettings_def
      drifted_def corrects_def windowReset_def)

text \<open>
  C7 (the code does otherwise). On a new object with issue-detection on, \<open>seek(100000)\<close>
  and \<open>play()\<close> at \<open>performance.now() = 0\<close> are followed by thirteen ticks within 120 ms,
  each of which finds the audio at 0 and re-seeks it. On every one of them the test of
  line 162 subtracts a frame time of at most 120 from a song timestamp above 100000 and
  resets the counter. After thirteen re-seeks within one second the counter is 0,
  auto-sync is still enabled, and neither the warning nor the \<open>Settings.set\<close> has happened.
\<close>

theorem autosync_never_disabled_after_seek:
  "\<not> isPaused seekedPlaying \<and>
   AudioAutoSyncEnabled (settings seekedPlaying) \<and>
   AudioAutoSyncDetectIssue (settings seekedPlaying) \<and>
   u_autoSyncCount seekedPlaying = 0 \<and>
   timestamp seekedPlaying = 100000 \<and>
   map fst thirteenFrames = [10, 20, 30, 40, 50, 60, 70, 80, 90, 100, 110, 120, 130] \<and>
   timestamp (run thirteenFrames seekedPlaying) = 100130 \<and>
   length (filter isAudioSeek (events (run thirteenFrames seekedPlaying)))
     = length (filter isAudioSeek (events seekedPlaying)) + 13 \<and>
   AudioAutoSyncEnabled (settings (run thirteenFrames seekedPlaying)) \<and>
   u_autoSyncCount (run thirteenFrames seekedPlaying) = 0 \<and>
   count_list (events (run thirteenFrames seekedPlaying)) autoSyncWarning = 0 \<and>
   count_list (events (run thirteenFrames seekedPlaying)) autoSyncDisable = 0"
  by (simp add: thirteenFrames_def seekedPlaying_eq emit_def loop_blocks advance_eq
      driftCorrection_eq issueCheck_eq newTimestamp_def playbackRate_def exampleSettings_def
      audioAt_def autoSyncWarning_def autoSyncDisable_def)

end
